theory Spec2Isabelle
  imports Main
begin

section \<open>The theme store\<close>

subsection \<open>Data\<close>

text \<open>
  The enum \<^verbatim>\<open>Theme\<close> has two members, whose runtime values are the strings
  \<^verbatim>\<open>"light"\<close> and \<^verbatim>\<open>"dark"\<close>.
\<close>

datatype Theme = LIGHT | DARK

fun theme_value :: "Theme \<Rightarrow> string" where
  "theme_value LIGHT = ''light''"
| "theme_value DARK = ''dark''"

text \<open>
  Everything the store does is recorded, in order, in a trace. The first three events are
  the calls made on \<^verbatim>\<open>document.documentElement.classList\<close>; \<open>Write\<close> is the
  replacement of the store's value; \<open>Run k cb v m\<close> is one invocation of the callback
  \<open>cb\<close>, registered under the subscription \<open>k\<close>, with the argument \<open>v\<close>, at a moment
  where the dark class is on the document root iff \<open>m\<close>.
\<close>

datatype event =
    Contains string
  | Add string
  | Remove string
  | Write Theme
  | Run nat nat Theme bool

text \<open>
  The page is the class list of the document root (a token list: ordered, without
  duplicates as far as \<open>add\<close> is concerned) and the trace. The world adds to it the state
  of the writable store: its value, its subscriptions in the order of registration (each a
  fresh key and the callback it runs) and the next fresh key. A callback is known by a
  number. In the store as modelled first, a callback observes what it is given and does
  not call back into the store; callbacks that make calls on the store from within an
  invocation are the subject of the subsection on re-entrant subscribers.
\<close>

record page =
  classList :: "string list"
  events :: "event list"

record world = page +
  current :: Theme
  subscribers :: "(nat \<times> nat) list"
  next_key :: nat

subsection \<open>The class list of the document root\<close>

definition classList_contains :: "string \<Rightarrow> 'a page_scheme \<Rightarrow> bool \<times> 'a page_scheme" where
  "classList_contains t p = (t \<in> set (classList p), p\<lparr>events := events p @ [Contains t]\<rparr>)"

definition classList_add :: "string \<Rightarrow> 'a page_scheme \<Rightarrow> 'a page_scheme" where
  "classList_add t p =
     p\<lparr>classList := (if t \<in> set (classList p) then classList p else classList p @ [t]),
       events := events p @ [Add t]\<rparr>"

definition classList_remove :: "string \<Rightarrow> 'a page_scheme \<Rightarrow> 'a page_scheme" where
  "classList_remove t p =
     p\<lparr>classList := filter (\<lambda>c. c \<noteq> t) (classList p), events := events p @ [Remove t]\<rparr>"

text \<open>The external marker: the dark class is on the document root.\<close>

definition marker :: "'a page_scheme \<Rightarrow> bool" where
  "marker p = (theme_value DARK \<in> set (classList p))"

subsection \<open>The writable store\<close>

text \<open>
  Modelled from the spec: \<^verbatim>\<open>writable\<close> is imported from \<^verbatim>\<open>svelte/store\<close> and its
  code is not among the sources. The spec gives the store one current value and an ordered
  set of subscriber callbacks, each invoked with the new value on every change;
  \<^verbatim>\<open>subscribe\<close> invokes the callback at once with the current value and returns the
  function that removes the registration; \<^verbatim>\<open>update(fn)\<close> sets \<open>fn\<close> of the current
  value. A \<^verbatim>\<open>set\<close> of the value the store already holds is not a change: the library
  sets the value only if it is not equal to the one it has (its \<^verbatim>\<open>safe_not_equal\<close>
  test, which on the two strings of the enum is \<^verbatim>\<open>!==\<close>), and then nobody is
  invoked.
\<close>

definition safe_not_equal :: "Theme \<Rightarrow> Theme \<Rightarrow> bool" where
  "safe_not_equal a b = (a \<noteq> b)"

text \<open>
  Modelled from the spec: the notification of \<^verbatim>\<open>writable\<close>, absent from the sources.
  Every registered subscriber is invoked once with the new value, in the order of
  registration. Here the subscribers only observe; the round in which a callback may call
  back into the store is \<open>drain\<close> below, which agrees with this one as long as no
  subscribed callback does so.
\<close>

definition run_subscribers :: "world \<Rightarrow> world" where
  "run_subscribers s =
     s\<lparr>events := events s @ map (\<lambda>(k, cb). Run k cb (current s) (marker s)) (subscribers s)\<rparr>"

text \<open>
  Modelled from the spec: \<^verbatim>\<open>set\<close> of \<^verbatim>\<open>writable\<close>, absent from the sources. A
  change replaces the value and then notifies the subscribers; a value equal to the
  current one changes nothing.
\<close>

definition writable_set :: "Theme \<Rightarrow> world \<Rightarrow> world" where
  "writable_set new_value s =
     (if safe_not_equal (current s) new_value
      then run_subscribers (s\<lparr>current := new_value, events := events s @ [Write new_value]\<rparr>)
      else s)"

text \<open>
  Modelled from the spec: \<^verbatim>\<open>update\<close> of \<^verbatim>\<open>writable\<close>, absent from the sources.
  The function is run on the current value, with whatever effects it has on the world, and
  its result is set.
\<close>

definition writable_update :: "(Theme \<Rightarrow> world \<Rightarrow> Theme \<times> world) \<Rightarrow> world \<Rightarrow> world" where
  "writable_update fn s = (let (v, s1) = fn (current s) s in writable_set v s1)"

text \<open>
  Modelled from the spec: \<^verbatim>\<open>subscribe\<close> of \<^verbatim>\<open>writable\<close>, absent from the
  sources. The callback is registered under a fresh key and invoked at once with the
  current value; the key stands for the function that \<^verbatim>\<open>subscribe\<close> returns.
\<close>

definition writable_subscribe :: "nat \<Rightarrow> world \<Rightarrow> nat \<times> world" where
  "writable_subscribe cb s =
     (let k = next_key s;
          s1 = s\<lparr>subscribers := subscribers s @ [(k, cb)], next_key := Suc k\<rparr>
      in (k, s1\<lparr>events := events s1 @ [Run k cb (current s1) (marker s1)]\<rparr>))"


subsection \<open>createThemeStore\<close>

text \<open>
  The store is created on a page: the initial value is read off the class list.
\<close>

definition createThemeStore :: "page \<Rightarrow> world" where
  "createThemeStore p =
     (let (dark, p1) = classList_contains (theme_value DARK) p
      in \<lparr>classList = classList p1, events = events p1,
          current = (if dark then DARK else LIGHT), subscribers = [], next_key = 0\<rparr>)"

definition updateClass :: "Theme \<Rightarrow> 'a page_scheme \<Rightarrow> 'a page_scheme" where
  "updateClass theme p =
     (if theme_value theme = ''dark'' then
        (let (present, p1) = classList_contains (theme_value DARK) p
         in if \<not> present then classList_add (theme_value DARK) p1 else p1)
      else
        (let (present, p1) = classList_contains (theme_value DARK) p
         in if present then classList_remove (theme_value DARK) p1 else p1))"

definition update :: "(Theme \<Rightarrow> Theme) \<Rightarrow> world \<Rightarrow> world" where
  "update updater s =
     writable_update
       (\<lambda>theme w. let newTheme = updater theme; w1 = updateClass newTheme w in (newTheme, w1)) s"

definition set_theme :: "Theme \<Rightarrow> world \<Rightarrow> world" where
  "set_theme newTheme s = writable_set newTheme (updateClass newTheme s)"

definition subscribe :: "nat \<Rightarrow> world \<Rightarrow> nat \<times> world" where
  "subscribe = writable_subscribe"

definition toggle :: "world \<Rightarrow> world" where
  "toggle s = update (\<lambda>theme. if theme = DARK then LIGHT else DARK) s"

subsection \<open>Sequences of calls\<close>

datatype call = Set Theme | Update "Theme \<Rightarrow> Theme" | Toggle

fun step :: "call \<Rightarrow> world \<Rightarrow> world" where
  "step (Set newTheme) s = set_theme newTheme s"
| "step (Update updater) s = update updater s"
| "step Toggle s = toggle s"

text \<open>The worlds after each call of a sequence, in order.\<close>

fun trace :: "call list \<Rightarrow> world \<Rightarrow> world list" where
  "trace [] s = []"
| "trace (c # cs) s = step c s # trace cs (step c s)"

text \<open>What a world \<open>t\<close> has added to the trace of an earlier world \<open>s\<close>.\<close>

definition since :: "world \<Rightarrow> world \<Rightarrow> event list" where
  "since s t = drop (length (events s)) (events t)"

text \<open>The function the claim on \<open>toggle\<close> speaks of: Dark to Light, Light to Dark.\<close>

fun swap_theme :: "Theme \<Rightarrow> Theme" where
  "swap_theme DARK = LIGHT"
| "swap_theme LIGHT = DARK"

subsection \<open>Reading the trace\<close>




text \<open>The invocations in a piece of trace: subscription, callback and argument.\<close>

fun runs :: "event list \<Rightarrow> (nat \<times> nat \<times> Theme) list" where
  "runs [] = []"
| "runs (Run k cb v m # es) = (k, cb, v) # runs es"
| "runs (Contains t # es) = runs es"
| "runs (Add t # es) = runs es"
| "runs (Remove t # es) = runs es"
| "runs (Write v # es) = runs es"

text \<open>
  A store with a Light theme on a page without the dark class and one subscriber, and a
  world in which the class list and the store disagree.
\<close>

definition light_store :: world where
  "light_store = snd (subscribe 7 (createThemeStore \<lparr>classList = [''app''], events = []\<rparr>))"

definition diverged_store :: world where
  "diverged_store =
     \<lparr>classList = [''dark'', ''app''], events = [], current = LIGHT,
      subscribers = [(0, 7)], next_key = 1\<rparr>"

subsection \<open>Subscribers\<close>












subsection \<open>Re-entrant subscribers\<close>














section \<open>classNames\<close>

text \<open>
  The arguments of \<^verbatim>\<open>classNames\<close> are strings, \<^verbatim>\<open>false\<close>, \<^verbatim>\<open>null\<close> or
  \<^verbatim>\<open>undefined\<close>.
\<close>

datatype class_arg = CString string | CFalse | CNull | CUndefined

text \<open>\<^verbatim>\<open>Boolean(x)\<close>: of these values only a non-empty string is truthy.\<close>

fun Boolean :: "class_arg \<Rightarrow> bool" where
  "Boolean (CString s) = (s \<noteq> [])"
| "Boolean CFalse = False"
| "Boolean CNull = False"
| "Boolean CUndefined = False"

text \<open>
  \<^verbatim>\<open>Array.prototype.join\<close> turns each element into a string, \<^verbatim>\<open>null\<close> and
  \<^verbatim>\<open>undefined\<close> into the empty one, and puts the separator between neighbours.
\<close>

fun element_string :: "class_arg \<Rightarrow> string" where
  "element_string (CString s) = s"
| "element_string CFalse = ''false''"
| "element_string CNull = []"
| "element_string CUndefined = []"

fun array_join :: "string \<Rightarrow> class_arg list \<Rightarrow> string" where
  "array_join sep [] = []"
| "array_join sep [x] = element_string x"
| "array_join sep (x # y # ys) = element_string x @ sep @ array_join sep (y # ys)"

definition classNames :: "class_arg list \<Rightarrow> string" where
  "classNames classes = array_join '' '' (filter Boolean classes)"

definition cx :: "class_arg list \<Rightarrow> string" where
  "cx = classNames"

text \<open>
  What the claim describes: the truthy arguments, in their order, and a list of strings
  written out with one space between neighbours.
\<close>

fun truthy_strings :: "class_arg list \<Rightarrow> string list" where
  "truthy_strings [] = []"
| "truthy_strings (CString s # xs) = (if s = [] then truthy_strings xs else s # truthy_strings xs)"
| "truthy_strings (CFalse # xs) = truthy_strings xs"
| "truthy_strings (CNull # xs) = truthy_strings xs"
| "truthy_strings (CUndefined # xs) = truthy_strings xs"

fun spaced :: "string list \<Rightarrow> string" where
  "spaced [] = []"
| "spaced [s] = s"
| "spaced (s # t # ts) = s @ '' '' @ spaced (t # ts)"

section \<open>Type guards\<close>

text \<open>
  The values a guard can be given. A number is NaN, an infinity or finite (a mantissa and
  a binary exponent); functions are known by a number, objects by their own properties.
\<close>

datatype number = NaN | PosInfinity | NegInfinity | Finite int int

datatype js_value =
    JUndefined
  | JNull
  | JBoolean bool
  | JNumber number
  | JBigInt int
  | JString string
  | JSymbol string
  | JFunction nat
  | JArray "js_value list"
  | JObject "(string \<times> js_value) list"

fun typeof :: "js_value \<Rightarrow> string" where
  "typeof JUndefined = ''undefined''"
| "typeof JNull = ''object''"
| "typeof (JBoolean b) = ''boolean''"
| "typeof (JNumber n) = ''number''"
| "typeof (JBigInt i) = ''bigint''"
| "typeof (JString s) = ''string''"
| "typeof (JSymbol d) = ''symbol''"
| "typeof (JFunction f) = ''function''"
| "typeof (JArray xs) = ''object''"
| "typeof (JObject ps) = ''object''"

text \<open>\<^verbatim>\<open>Number.isNaN\<close> does not convert its argument: it holds of the number NaN only.\<close>

fun Number_isNaN :: "js_value \<Rightarrow> bool" where
  "Number_isNaN (JNumber NaN) = True"
| "Number_isNaN v = False"

fun Array_isArray :: "js_value \<Rightarrow> bool" where
  "Array_isArray (JArray xs) = True"
| "Array_isArray v = False"

definition isNumber :: "js_value \<Rightarrow> bool" where
  "isNumber v = (typeof v = ''number'' \<and> \<not> Number_isNaN v)"

definition isObject :: "js_value \<Rightarrow> bool" where
  "isObject v = (typeof v = ''object'' \<and> \<not> Array_isArray v \<and> v \<noteq> JNull)"

definition isArray :: "js_value \<Rightarrow> bool" where
  "isArray v = Array_isArray v"

section \<open>Properties of the theme store\<close>

subsection \<open>What updateClass does\<close>

lemma updateClass_events:
  "events (updateClass t p) =
     events p @ Contains ''dark'' #
       (if t = DARK \<and> \<not> marker p then [Add ''dark'']
        else if t = LIGHT \<and> marker p then [Remove ''dark''] else [])"
  by (cases t)
     (simp_all add: updateClass_def classList_contains_def classList_add_def
        classList_remove_def marker_def)

lemma updateClass_classList:
  "classList (updateClass t p) =
     (if t = DARK \<and> \<not> marker p then classList p @ [''dark'']
      else if t = LIGHT \<and> marker p then filter (\<lambda>c. c \<noteq> ''dark'') (classList p)
      else classList p)"
  by (cases t)
     (simp_all add: updateClass_def classList_contains_def classList_add_def
        classList_remove_def marker_def)

lemma updateClass_marker: "marker (updateClass t p) = (t = DARK)"
  by (cases t) (auto simp add: marker_def updateClass_classList)

lemma updateClass_world [simp]:
  "current (updateClass t s) = current s"
  "subscribers (updateClass t s) = subscribers s"
  "next_key (updateClass t s) = next_key s"
  by (simp_all add: updateClass_def classList_contains_def classList_add_def
        classList_remove_def)

subsection \<open>Construction\<close>

text \<open>
  C2. Creating the store makes one call on the class list, the test whether the dark
  class is there, and nothing else: the class list is as it was, no value has been written
  and no callback has run. The initial theme is Dark if the class was there and Light if
  it was not, and nobody is subscribed.
\<close>

theorem createThemeStore_reads_marker_once:
  "events (createThemeStore p) = events p @ [Contains ''dark'']
   \<and> classList (createThemeStore p) = classList p
   \<and> current (createThemeStore p) = (if marker p then DARK else LIGHT)
   \<and> subscribers (createThemeStore p) = []"
  by (simp add: createThemeStore_def classList_contains_def marker_def)

subsection \<open>What the operations do\<close>

lemma writable_set_current: "current (writable_set v s) = v"
  by (simp add: writable_set_def run_subscribers_def safe_not_equal_def)

lemma writable_set_page:
  "classList (writable_set v s) = classList s"
  "marker (writable_set v s) = marker s"
  "subscribers (writable_set v s) = subscribers s"
  "next_key (writable_set v s) = next_key s"
  by (simp_all add: writable_set_def run_subscribers_def marker_def)

lemma writable_set_events:
  "events (writable_set v s) =
     events s @
       (if current s \<noteq> v
        then Write v # map (\<lambda>(k, cb). Run k cb v (marker s)) (subscribers s)
        else [])"
  by (simp add: writable_set_def run_subscribers_def safe_not_equal_def marker_def)

lemma update_eq_set_theme: "update updater s = set_theme (updater (current s)) s"
  by (simp add: update_def set_theme_def writable_update_def Let_def)

lemma set_theme_current: "current (set_theme t s) = t"
  by (simp add: set_theme_def writable_set_current)

lemma set_theme_marker: "marker (set_theme t s) = (t = DARK)"
  by (simp add: set_theme_def writable_set_page updateClass_marker)

lemma set_theme_subscribers:
  "subscribers (set_theme t s) = subscribers s"
  "next_key (set_theme t s) = next_key s"
  by (simp_all add: set_theme_def writable_set_page)

lemma set_theme_classList:
  "classList (set_theme t s) =
     (if t = DARK \<and> \<not> marker s then classList s @ [''dark'']
      else if t = LIGHT \<and> marker s then filter (\<lambda>c. c \<noteq> ''dark'') (classList s)
      else classList s)"
  by (simp add: set_theme_def writable_set_page updateClass_classList)

lemma set_theme_events:
  "events (set_theme t s) =
     events s @ Contains ''dark'' #
       (if t = DARK \<and> \<not> marker s then [Add ''dark'']
        else if t = LIGHT \<and> marker s then [Remove ''dark''] else []) @
       (if current s \<noteq> t
        then Write t # map (\<lambda>(k, cb). Run k cb t (t = DARK)) (subscribers s)
        else [])"
  by (simp add: set_theme_def writable_set_events updateClass_events updateClass_marker)

lemma toggle_eq_set_theme: "toggle s = set_theme (swap_theme (current s)) s"
  by (cases "current s") (simp_all add: toggle_def update_eq_set_theme)

lemma step_eq_set_theme:
  "step c s =
     set_theme (case c of Set t \<Rightarrow> t | Update f \<Rightarrow> f (current s) | Toggle \<Rightarrow> swap_theme (current s)) s"
  by (cases c) (simp_all add: update_eq_set_theme toggle_eq_set_theme)

subsection \<open>toggle\<close>

text \<open>
  C3. Two calls of toggle bring the store back to the theme it started from, whatever
  that theme was and whatever the class list held; the subscriptions are as they were, and
  the marker then agrees with that theme.
\<close>

theorem toggle_involution:
  "current (toggle (toggle s)) = current s
   \<and> subscribers (toggle (toggle s)) = subscribers s
   \<and> marker (toggle (toggle s)) = (current s = DARK)"
  by (cases "current s")
     (simp_all add: toggle_eq_set_theme set_theme_current set_theme_marker
        set_theme_subscribers)

text \<open>
  C4. toggle does what update does with the function that sends Dark to Light and Light
  to Dark: the two calls end in the same world, hence with the same current theme, the same
  marker and the same trace of class-list calls, writes and callback invocations.
\<close>

theorem toggle_is_update_swap:
  "toggle s = update swap_theme s
   \<and> current (toggle s) = current (update swap_theme s)
   \<and> marker (toggle s) = marker (update swap_theme s)
   \<and> since s (toggle s) = since s (update swap_theme s)"
proof -
  have "(\<lambda>theme. if theme = DARK then LIGHT else DARK) = swap_theme"
  proof
    fix theme
    show "(if theme = DARK then LIGHT else DARK) = swap_theme theme"
      by (cases theme) simp_all
  qed
  then have "toggle s = update swap_theme s"
    by (simp add: toggle_def)
  then show ?thesis
    by simp
qed

subsection \<open>The marker and the theme\<close>

lemma since_append: "events t = events s @ xs \<Longrightarrow> since s t = xs"
  by (simp add: since_def)


lemma step_marker: "marker (step c s) = (current (step c s) = DARK)"
  by (simp add: step_eq_set_theme set_theme_marker set_theme_current)

text \<open>
  C1. Take any world, also one where the class list and the store disagree, and any
  sequence of set, update and toggle calls. In the world each call leaves behind, the dark
  class is on the document root iff the current theme is Dark.
\<close>

theorem marker_follows_theme:
  "\<forall>t \<in> set (trace cs s). marker t = (current t = DARK)"
proof (induction cs arbitrary: s)
  case Nil
  show ?case by simp
next
  case (Cons c cs)
  have "marker (step c s) = (current (step c s) = DARK)"
    by (rule step_marker)
  with Cons.IH [of "step c s"] show ?case
    by simp
qed

theorem marker_follows_theme_witness:
  "map (\<lambda>t. (marker t, current t))
     (trace [Toggle, Set DARK, Update (\<lambda>theme. LIGHT)] diverged_store) =
     [(True, DARK), (True, DARK), (False, LIGHT)]
   \<and> list_all (\<lambda>t. marker t = (current t = DARK))
       (trace [Toggle, Set DARK, Update (\<lambda>theme. LIGHT)] diverged_store)"
  using marker_follows_theme [of "[Toggle, Set DARK, Update (\<lambda>theme. LIGHT)]" diverged_store]
  by (simp add: step_eq_set_theme set_theme_marker set_theme_current diverged_store_def)

subsection \<open>set\<close>

lemma runs_map_Run:
  "runs (map (\<lambda>(k, cb). Run k cb v m) subs) = map (\<lambda>(k, cb). (k, cb, v)) subs"
  by (induction subs) auto

text \<open>
  C5, as the code has it. A call of set asks the class list whether the dark class is
  there; it adds the class if the new theme is Dark and the class is missing, removes it
  if the new theme is Light and the class is there, and otherwise leaves the class list
  alone. Afterwards the current theme is the new theme. If the new theme differs from the
  theme the store held, the value is written and every subscriber is invoked once with
  the new theme, in the order of subscription; if it is the theme the store already held,
  nothing is written and no subscriber is invoked.
\<close>

theorem set_theme_effect:
  "since s (set_theme t s) =
     Contains ''dark'' #
       (if t = DARK \<and> \<not> marker s then [Add ''dark'']
        else if t = LIGHT \<and> marker s then [Remove ''dark''] else []) @
       (if current s \<noteq> t
        then Write t # map (\<lambda>(k, cb). Run k cb t (t = DARK)) (subscribers s)
        else [])
   \<and> classList (set_theme t s) =
       (if t = DARK \<and> \<not> marker s then classList s @ [''dark'']
        else if t = LIGHT \<and> marker s then filter (\<lambda>c. c \<noteq> ''dark'') (classList s)
        else classList s)
   \<and> current (set_theme t s) = t
   \<and> runs (since s (set_theme t s)) =
       (if current s \<noteq> t then map (\<lambda>(k, cb). (k, cb, t)) (subscribers s) else [])"
proof -
  let ?dom = "Contains ''dark'' #
       (if t = DARK \<and> \<not> marker s then [Add ''dark'']
        else if t = LIGHT \<and> marker s then [Remove ''dark''] else [])"
  let ?store = "if current s \<noteq> t
        then Write t # map (\<lambda>(k, cb). Run k cb t (t = DARK)) (subscribers s)
        else []"
  have ev: "since s (set_theme t s) = ?dom @ ?store"
    by (rule since_append) (simp add: set_theme_events)
  have "runs (?dom @ ?store) =
       (if current s \<noteq> t then map (\<lambda>(k, cb). (k, cb, t)) (subscribers s) else [])"
    by (simp add: runs_map_Run)
  with ev show ?thesis
    by (simp add: set_theme_classList set_theme_current)
qed

theorem set_theme_effect_witness:
  "since diverged_store (set_theme DARK diverged_store) =
     [Contains ''dark'', Write DARK, Run 0 7 DARK True]
   \<and> since light_store (set_theme DARK light_store) =
     [Contains ''dark'', Add ''dark'', Write DARK, Run 0 7 DARK True]
   \<and> classList (set_theme DARK light_store) = [''app'', ''dark'']"
  using set_theme_effect [of diverged_store DARK] set_theme_effect [of light_store DARK]
  by (simp add: diverged_store_def light_store_def subscribe_def writable_subscribe_def
        createThemeStore_def classList_contains_def marker_def)

text \<open>
  The claim as the spec words it fails where the new theme is the one the store holds:
  the store is Light, it has a subscriber, set(Light) leaves it Light and invokes nobody.
\<close>

theorem set_theme_same_theme_counterexample:
  "current light_store = LIGHT
   \<and> subscribers light_store = [(0, 7)]
   \<and> current (set_theme LIGHT light_store) = LIGHT
   \<and> runs (since light_store (set_theme LIGHT light_store)) = []"
  by (simp add: light_store_def subscribe_def writable_subscribe_def createThemeStore_def
        classList_contains_def marker_def set_theme_def updateClass_def writable_set_def
        safe_not_equal_def since_def)

subsection \<open>The order of the effects\<close>






subsection \<open>Subscribers that call back into the store\<close>


















subsection \<open>Subscriptions\<close>

























section \<open>Properties of classNames\<close>

lemma truthy_strings_filter:
  "truthy_strings classes = map element_string (filter Boolean classes)"
  by (induction classes rule: truthy_strings.induct) simp_all

lemma array_join_spaced: "array_join '' '' xs = spaced (map element_string xs)"
  by (induction "'' ''" xs rule: array_join.induct) simp_all

lemma array_join_truthy:
  "array_join '' '' (filter Boolean classes) = spaced (truthy_strings classes)"
  by (simp add: truthy_strings_filter array_join_spaced)

lemma length_spaced:
  "length (spaced ss) = sum_list (map length ss) + (length ss - 1)"
  by (induction ss rule: spaced.induct) simp_all

text \<open>
  C8. classNames, and cx with it, returns the truthy arguments (the non-empty strings) in
  their order with one space between neighbours. Arguments that are false, null,
  undefined or the empty string leave nothing behind, no separator either: the result is
  as long as the truthy arguments together plus one space for each but the first, and it
  is the empty string where no argument is truthy.
\<close>

theorem classNames_joins_truthy:
  "classNames classes = spaced (truthy_strings classes)
   \<and> cx classes = classNames classes
   \<and> length (classNames classes) =
       sum_list (map length (truthy_strings classes)) + (length (truthy_strings classes) - 1)
   \<and> (list_all (\<lambda>c. \<not> Boolean c) classes \<longrightarrow> classNames classes = [])"
proof -
  have eq: "classNames classes = spaced (truthy_strings classes)"
    by (simp add: classNames_def array_join_truthy)
  have "list_all (\<lambda>c. \<not> Boolean c) classes \<longrightarrow> filter Boolean classes = []"
    by (induction classes) simp_all
  then have "list_all (\<lambda>c. \<not> Boolean c) classes \<longrightarrow> classNames classes = []"
    by (simp add: classNames_def)
  with eq show ?thesis
    by (simp add: cx_def length_spaced)
qed

theorem classNames_joins_truthy_witness:
  "classNames [CString ''btn'', CFalse, CNull, CString [], CUndefined, CString ''btn-primary'']
     = ''btn btn-primary''
   \<and> list_all (\<lambda>c. \<not> Boolean c) [CFalse, CString [], CNull, CUndefined]
   \<and> classNames [CFalse, CString [], CNull, CUndefined] = []
   \<and> cx [] = []"
  using classNames_joins_truthy
      [of "[CString ''btn'', CFalse, CNull, CString [], CUndefined, CString ''btn-primary'']"]
    classNames_joins_truthy [of "[CFalse, CString [], CNull, CUndefined]"]
    classNames_joins_truthy [of "[]"]
  by simp

section \<open>Properties of the type guards\<close>

text \<open>
  C9. isNumber holds of a value iff its typeof is "number" and it is not NaN, that is
  iff it is a number other than NaN. NaN has typeof "number", and isNumber(NaN) is false.
\<close>

theorem isNumber_iff:
  "isNumber v = (typeof v = ''number'' \<and> v \<noteq> JNumber NaN)
   \<and> isNumber v = (\<exists>n. v = JNumber n \<and> n \<noteq> NaN)
   \<and> typeof (JNumber NaN) = ''number''
   \<and> \<not> isNumber (JNumber NaN)"
proof -
  have "isNumber v = (\<exists>n. v = JNumber n \<and> n \<noteq> NaN)"
  proof (cases v)
    case (JNumber n)
    then show ?thesis
      by (cases n) (simp_all add: isNumber_def)
  qed (simp_all add: isNumber_def)
  moreover have "(typeof v = ''number'' \<and> v \<noteq> JNumber NaN) = (\<exists>n. v = JNumber n \<and> n \<noteq> NaN)"
    by (cases v) auto
  ultimately show ?thesis
    by (simp add: isNumber_def)
qed

theorem isNumber_iff_witness:
  "isNumber (JNumber (Finite 3 0)) \<and> isNumber (JNumber PosInfinity)
   \<and> \<not> isNumber (JString ''3'') \<and> \<not> isNumber (JNumber NaN)"
  using isNumber_iff [of "JNumber (Finite 3 0)"] isNumber_iff [of "JNumber PosInfinity"]
    isNumber_iff [of "JString ''3''"]
  by simp

text \<open>
  C10. No value is both an object and an array for the guards: isObject and isArray
  never hold of the same value. Neither holds of null, although its typeof is "object".
\<close>

theorem isObject_isArray_exclusive:
  "\<not> (isObject v \<and> isArray v)
   \<and> \<not> isObject JNull
   \<and> \<not> isArray JNull
   \<and> typeof JNull = ''object''"
  by (cases v) (simp_all add: isObject_def isArray_def)

theorem isObject_isArray_exclusive_witness:
  "isArray (JArray [JNull]) \<and> \<not> isObject (JArray [JNull])
   \<and> isObject (JObject [(''a'', JNull)]) \<and> \<not> isArray (JObject [(''a'', JNull)])"
  using isObject_isArray_exclusive [of "JArray [JNull]"]
    isObject_isArray_exclusive [of "JObject [(''a'', JNull)]"]
  by (simp add: isObject_def isArray_def)

end
